theory Spec2Isabelle
  imports Complex_Main
begin

section \<open>The controllers of the smart thermostat (controllers.py)\<close>

text \<open>
  A shallow embedding of \<^verbatim>\<open>custom_components/smart_thermostat/controllers.py\<close>.
  Temperatures, tolerances and gains are Python floats; they are modelled by the reals,
  so rounding, infinities and NaN are outside the model. An object attribute that Python
  mutates in place is a record field, and every method returns the updated controller
  together with the updated surroundings (\<open>world\<close>). A raised exception is a value.
\<close>

subsection \<open>Constants imported from the host platform\<close>

definition HVAC_MODE_OFF :: string where "HVAC_MODE_OFF = ''off''"
definition HVAC_MODE_COOL :: string where "HVAC_MODE_COOL = ''cool''"
definition HVAC_MODE_HEAT :: string where "HVAC_MODE_HEAT = ''heat''"
definition HVAC_MODE_HEAT_COOL :: string where "HVAC_MODE_HEAT_COOL = ''heat_cool''"
definition STATE_ON :: string where "STATE_ON = ''on''"
definition ATTR_ENTITY_ID :: string where "ATTR_ENTITY_ID = ''entity_id''"
definition SERVICE_TURN_ON :: string where "SERVICE_TURN_ON = ''turn_on''"
definition SERVICE_TURN_OFF :: string where "SERVICE_TURN_OFF = ''turn_off''"
definition HA_DOMAIN :: string where "HA_DOMAIN = ''homeassistant''"
definition ATTR_PID_PARAMS :: string where "ATTR_PID_PARAMS = ''pid_params''"

subsection \<open>Values, exceptions and results\<close>

datatype error =
    ValueError string
  | TypeError
  | AttributeError
  | NotImplementedError

text \<open>
  The result of a method: it returned a value in a final state, or it raised in the state
  reached at the raise (attributes assigned before the raise stay assigned).
\<close>

datatype ('v, 's) outcome = Returned 'v 's | Raised error 's

fun final_state :: "('v, 's) outcome \<Rightarrow> 's" where
  "final_state (Returned v s) = s"
| "final_state (Raised e s) = s"

fun has_raised :: "('v, 's) outcome \<Rightarrow> bool" where
  "has_raised (Returned v s) = False"
| "has_raised (Raised e s) = True"

text \<open>A state object of the host's state machine: its state string and its attributes.
  An attribute stored as \<^verbatim>\<open>None\<close> reads through \<^verbatim>\<open>.get\<close> like a missing one.\<close>

record State =
  state :: string
  attributes :: "string \<rightharpoonup> string"

text \<open>The Python values that reach a gain field or a comparison of this module.\<close>

datatype pyobj = PyNone | PyFloat real | PyStr string | PyState State

text \<open>\<^verbatim>\<open>a == b\<close>: values of different kinds are never equal; a State object
  compares equal to State objects only.\<close>

fun py_eq :: "pyobj \<Rightarrow> pyobj \<Rightarrow> bool" where
  "py_eq PyNone PyNone = True"
| "py_eq (PyFloat a) (PyFloat b) = (a = b)"
| "py_eq (PyStr a) (PyStr b) = (a = b)"
| "py_eq (PyState a) (PyState b) = (a = b)"
| "py_eq _ _ = False"

text \<open>\<^verbatim>\<open>-x\<close> and \<^verbatim>\<open>x < 0\<close> are defined on numbers; on a string, on
  \<^verbatim>\<open>None\<close> and on a State object they raise TypeError.\<close>

fun py_neg :: "pyobj \<Rightarrow> error + pyobj" where
  "py_neg (PyFloat a) = Inr (PyFloat (- a))"
| "py_neg _ = Inl TypeError"

fun py_lt_zero :: "pyobj \<Rightarrow> error + bool" where
  "py_lt_zero (PyFloat a) = Inr (a < 0)"
| "py_lt_zero _ = Inl TypeError"

text \<open>
  An attribute declared as \<^verbatim>\<open>self._x = Optional[T]\<close>: the constructor stores the
  typing expression itself, which is a truthy object without the attributes of \<open>T\<close>.
  Later the attribute holds \<^verbatim>\<open>None\<close> or an object.
\<close>

datatype 'a slot = TypingOptional | NoneValue | Object 'a

fun truthy :: "'a slot \<Rightarrow> bool" where
  "truthy TypingOptional = True"
| "truthy NoneValue = False"
| "truthy (Object x) = True"

fun slot_of_option :: "'a option \<Rightarrow> 'a slot" where
  "slot_of_option None = NoneValue"
| "slot_of_option (Some x) = Object x"

subsection \<open>The surroundings: thermostat, host state machine, services, log\<close>

datatype level = DEBUG | INFO | WARNING | ERROR

datatype command =
    ServiceCall string string "(string \<times> string) list"
  | ApplyOutput string real

type_synonym timedelta = int
type_synonym datetime = int

text \<open>
  The thermostat and the host the controller is attached to (\<^verbatim>\<open>set_thermostat\<close> and
  \<^verbatim>\<open>async_added_to_hass\<close> have run). \<open>commands\<close> are the actuation commands issued so
  far, \<open>logged\<close> the log records written so far (level and the leading words of the
  message), both oldest first. A command is recorded only: the host carries it out later,
  so the states do not change within a call.
  \<open>elapsed_since_last_actuator_transition\<close> is the host query of the spec (section 6):
  how long the entity has held the expected state, \<open>None\<close> when that is unknown.
\<close>

record world =
  hvac_mode :: string
  current_temperature :: "real option"
  target_temperature :: "real option"
  states :: "string \<rightharpoonup> State"
  elapsed_since_last_actuator_transition :: "string \<Rightarrow> string \<Rightarrow> timedelta option"
  commands :: "command list"
  logged :: "(level \<times> string) list"

definition log_record :: "level \<Rightarrow> string \<Rightarrow> world \<Rightarrow> world" where
  "log_record lvl msg w = w\<lparr>logged := logged w @ [(lvl, msg)]\<rparr>"

definition async_call :: "string \<Rightarrow> string \<Rightarrow> (string \<times> string) list \<Rightarrow> world \<Rightarrow> world" where
  "async_call domain service data w = w\<lparr>commands := commands w @ [ServiceCall domain service data]\<rparr>"

text \<open>\<^verbatim>\<open>hass.states.is_state(entity_id, state)\<close>\<close>

definition is_state :: "world \<Rightarrow> string \<Rightarrow> string \<Rightarrow> bool" where
  "is_state w entity_id s = (case states w entity_id of None \<Rightarrow> False | Some st \<Rightarrow> state st = s)"

text \<open>
  Modelled from the spec: the host helper \<^verbatim>\<open>condition.state(hass, entity, state, period)\<close>
  is not part of the repository. Following section 6
  (\<^verbatim>\<open>elapsed_since_last_actuator_transition -> Result<Duration, Unknown>\<close>) and section 4.2
  step 1, it answers whether the entity has held the state for the period, and raises
  ConditionError (the result \<open>None\<close> here) when the elapsed time is unknown.
\<close>

definition condition_state :: "world \<Rightarrow> string \<Rightarrow> string \<Rightarrow> timedelta \<Rightarrow> bool option" where
  "condition_state w entity_id req_state for_period =
     (case elapsed_since_last_actuator_transition w entity_id req_state of
        None \<Rightarrow> None
      | Some held \<Rightarrow> Some (\<not> held < for_period))"

subsection \<open>AbstractController\<close>

record controller =
  name :: string
  mode :: string
  target_entity_id :: string
  inverted :: bool
  running :: bool

text \<open>
  \<^verbatim>\<open>AbstractController.__init__\<close>, the initialiser that every controller class reaches
  through \<^verbatim>\<open>super().__init__\<close>. It runs on an object that already exists; whether a class
  can be called at all is modelled below (calling a class).
\<close>

definition unsupported_mode :: "string \<Rightarrow> error" where
  "unsupported_mode m = ValueError (''Unsupported mode: '' @ [CHR 0x27] @ m @ [CHR 0x27])"

definition AbstractController_init :: "string \<Rightarrow> string \<Rightarrow> string \<Rightarrow> bool \<Rightarrow> error + controller" where
  "AbstractController_init nm md target inv_flag =
     (if md \<notin> set [HVAC_MODE_COOL, HVAC_MODE_HEAT] then Inl (unsupported_mode md)
      else Inr \<lparr>name = nm, mode = md, target_entity_id = target, inverted = inv_flag, running = False\<rparr>)"

text \<open>
  \<^verbatim>\<open>async_start\<close>, \<^verbatim>\<open>async_stop\<close> and \<^verbatim>\<open>async_control\<close> are final methods that call the
  abstract \<^verbatim>\<open>_async_start\<close>, \<^verbatim>\<open>_async_stop\<close> and \<^verbatim>\<open>_async_control\<close> of the subclass,
  given here as the first argument.
\<close>

definition AbstractController_async_start ::
  "('a controller_scheme \<Rightarrow> world \<Rightarrow> real option \<Rightarrow> real option
      \<Rightarrow> (bool, 'a controller_scheme \<times> world) outcome)
    \<Rightarrow> 'a controller_scheme \<Rightarrow> world \<Rightarrow> (unit, 'a controller_scheme \<times> world) outcome" where
  "AbstractController_async_start start_impl c w =
     (let cur_temp = current_temperature w;
          target_temp = target_temperature w
      in case start_impl c w cur_temp target_temp of
           Raised e s \<Rightarrow> Raised e s
         | Returned ok (c', w') \<Rightarrow>
             (if ok then Returned () (c'\<lparr>running := True\<rparr>, log_record DEBUG ''Started controller'' w')
              else Returned () (c', log_record ERROR ''Error starting controller'' w')))"

definition AbstractController_async_stop ::
  "('a controller_scheme \<Rightarrow> world \<Rightarrow> (unit, 'a controller_scheme \<times> world) outcome)
    \<Rightarrow> 'a controller_scheme \<Rightarrow> world \<Rightarrow> (unit, 'a controller_scheme \<times> world) outcome" where
  "AbstractController_async_stop stop_impl c w =
     (case stop_impl c (log_record DEBUG ''Stopping controller'' w) of
        Raised e s \<Rightarrow> Raised e s
      | Returned u (c', w') \<Rightarrow> Returned () (c'\<lparr>running := False\<rparr>, w'))"

definition AbstractController_async_control ::
  "('a controller_scheme \<Rightarrow> world \<Rightarrow> real option \<Rightarrow> real option \<Rightarrow> datetime option \<Rightarrow> bool
      \<Rightarrow> (unit, 'a controller_scheme \<times> world) outcome)
    \<Rightarrow> 'a controller_scheme \<Rightarrow> world \<Rightarrow> datetime option \<Rightarrow> bool
    \<Rightarrow> (unit, 'a controller_scheme \<times> world) outcome" where
  "AbstractController_async_control control_impl c w time force =
     (if \<not> running c then Returned () (c, w)
      else let cur_temp = current_temperature w;
               target_temp = target_temperature w
           in control_impl c w cur_temp target_temp time force)"

subsection \<open>SwitchController\<close>

record switch_controller = controller +
  cold_tolerance :: real
  hot_tolerance :: real
  min_cycle_duration :: "timedelta option"


definition SwitchController__async_turn_on :: "switch_controller \<Rightarrow> world \<Rightarrow> world" where
  "SwitchController__async_turn_on c w =
     (let service = (if \<not> inverted c then SERVICE_TURN_ON else SERVICE_TURN_OFF);
          data = [(ATTR_ENTITY_ID, target_entity_id c)]
      in async_call HA_DOMAIN service data w)"

definition SwitchController__async_turn_off :: "switch_controller \<Rightarrow> world \<Rightarrow> world" where
  "SwitchController__async_turn_off c w =
     (let service = (if \<not> inverted c then SERVICE_TURN_OFF else SERVICE_TURN_ON);
          data = [(ATTR_ENTITY_ID, target_entity_id c)]
      in async_call HA_DOMAIN service data w)"

definition SwitchController__is_on :: "switch_controller \<Rightarrow> world \<Rightarrow> bool" where
  "SwitchController__is_on c w = is_state w (target_entity_id c) STATE_ON"

definition SwitchController_is_working :: "switch_controller \<Rightarrow> world \<Rightarrow> bool" where
  "SwitchController_is_working c w = SwitchController__is_on c w"

definition SwitchController__async_start ::
  "switch_controller \<Rightarrow> world \<Rightarrow> real option \<Rightarrow> real option
    \<Rightarrow> (bool, switch_controller \<times> world) outcome" where
  "SwitchController__async_start c w cur_temp target_temp = Returned True (c, w)"

definition SwitchController__async_stop ::
  "switch_controller \<Rightarrow> world \<Rightarrow> (unit, switch_controller \<times> world) outcome" where
  "SwitchController__async_stop c w = Returned () (c, SwitchController__async_turn_off c w)"

text \<open>A \<^verbatim>\<open>timedelta\<close> is falsy when it is zero, so \<^verbatim>\<open>if self._min_cycle_duration\<close>
  reads a zero duration like an unset one.\<close>

fun min_cycle_set :: "timedelta option \<Rightarrow> bool" where
  "min_cycle_set None = False"
| "min_cycle_set (Some d) = (d \<noteq> 0)"

text \<open>Lines 393 to 405: the state the actuator is expected to hold, and whether it has held
  it for the minimum cycle; ConditionError is caught and reads as "not long enough".\<close>

definition long_enough :: "switch_controller \<Rightarrow> world \<Rightarrow> bool" where
  "long_enough c w =
     (let current_state = (if SwitchController__is_on c w then STATE_ON else HVAC_MODE_OFF)
      in case min_cycle_duration c of
           None \<Rightarrow> False
         | Some d \<Rightarrow>
             (case condition_state w (target_entity_id c) current_state d of
                None \<Rightarrow> False
              | Some b \<Rightarrow> b))"

definition too_cold :: "switch_controller \<Rightarrow> real \<Rightarrow> real \<Rightarrow> bool" where
  "too_cold c cur_temp target_temp = (cur_temp \<le> target_temp - cold_tolerance c)"

definition too_hot :: "switch_controller \<Rightarrow> real \<Rightarrow> real \<Rightarrow> bool" where
  "too_hot c cur_temp target_temp = (cur_temp \<ge> target_temp + hot_tolerance c)"

definition need_turn_on :: "switch_controller \<Rightarrow> world \<Rightarrow> real \<Rightarrow> real \<Rightarrow> bool" where
  "need_turn_on c w cur_temp target_temp =
     ((too_hot c cur_temp target_temp \<and> mode c = HVAC_MODE_COOL
         \<and> hvac_mode w \<in> set [HVAC_MODE_COOL, HVAC_MODE_HEAT_COOL])
      \<or> (too_cold c cur_temp target_temp \<and> mode c = HVAC_MODE_HEAT
         \<and> hvac_mode w \<in> set [HVAC_MODE_HEAT, HVAC_MODE_HEAT_COOL]))"

text \<open>
  \<^verbatim>\<open>SwitchController._async_control\<close>. \<open>time\<close> is \<open>None\<close> on a normal tick and the
  timestamp on a keep-alive tick. A temperature that is \<^verbatim>\<open>None\<close> makes the first
  comparison raise TypeError, after the gate and before any command.
\<close>

definition SwitchController__async_control ::
  "switch_controller \<Rightarrow> world \<Rightarrow> real option \<Rightarrow> real option \<Rightarrow> datetime option \<Rightarrow> bool
    \<Rightarrow> (unit, switch_controller \<times> world) outcome" where
  "SwitchController__async_control c w cur_temp target_temp time force =
     (if \<not> force \<and> time = None \<and> min_cycle_set (min_cycle_duration c) \<and> \<not> long_enough c w
      then Returned () (c, w)
      else case (cur_temp, target_temp) of
             (Some cur, Some target) \<Rightarrow>
               (let need = need_turn_on c w cur target;
                    w1 = log_record DEBUG ''too_hot, too_cold, need_turn_on, is on'' w
                in if SwitchController__is_on c w1 then
                     (if \<not> need then
                        Returned () (c, SwitchController__async_turn_off c (log_record INFO ''Turning off'' w1))
                      else if time \<noteq> None then
                        Returned () (c, SwitchController__async_turn_on c (log_record INFO ''Keep-alive - Turning on'' w1))
                      else Returned () (c, w1))
                   else
                     (if need then
                        Returned () (c, SwitchController__async_turn_on c (log_record INFO ''Turning on'' w1))
                      else if time \<noteq> None then
                        Returned () (c, SwitchController__async_turn_off c (log_record INFO ''Keep-alive - Turning off'' w1))
                      else Returned () (c, w1)))
           | _ \<Rightarrow> Raised TypeError (c, w))"

definition SwitchController_async_control ::
  "switch_controller \<Rightarrow> world \<Rightarrow> datetime option \<Rightarrow> bool \<Rightarrow> (unit, switch_controller \<times> world) outcome" where
  "SwitchController_async_control c w time force =
     AbstractController_async_control SwitchController__async_control c w time force"

definition SwitchController_async_start ::
  "switch_controller \<Rightarrow> world \<Rightarrow> (unit, switch_controller \<times> world) outcome" where
  "SwitchController_async_start c w = AbstractController_async_start SwitchController__async_start c w"

definition SwitchController_async_stop ::
  "switch_controller \<Rightarrow> world \<Rightarrow> (unit, switch_controller \<times> world) outcome" where
  "SwitchController_async_stop c w = AbstractController_async_stop SwitchController__async_stop c w"

subsection \<open>PidParams\<close>

record PidParams =
  kp :: pyobj
  ki :: pyobj
  kd :: pyobj

definition PidParams_init :: "pyobj \<Rightarrow> pyobj \<Rightarrow> pyobj \<Rightarrow> PidParams" where
  "PidParams_init a b d = \<lparr>kp = a, ki = b, kd = d\<rparr>"

text \<open>\<^verbatim>\<open>invert\<close> negates the three fields in place, in this order; the model returns the
  negated object, and the first field that is not a number raises.\<close>

definition invert :: "PidParams \<Rightarrow> error + PidParams" where
  "invert p =
     (case py_neg (kp p) of
        Inl e \<Rightarrow> Inl e
      | Inr a \<Rightarrow>
          (case py_neg (ki p) of
             Inl e \<Rightarrow> Inl e
           | Inr b \<Rightarrow>
               (case py_neg (kd p) of
                  Inl e \<Rightarrow> Inl e
                | Inr d \<Rightarrow> Inr (p\<lparr>kp := a, ki := b, kd := d\<rparr>))))"

subsection \<open>The feedback loop of the library simple_pid\<close>

text \<open>
  Modelled from the spec: the class \<^verbatim>\<open>PID\<close> of the library simple_pid is not part of
  the repository. Its object is the FeedbackState of section 3 together with the three
  gains that \<^verbatim>\<open>set_pid_params\<close> assigns (\<^verbatim>\<open>Kp\<close>, \<^verbatim>\<open>Ki\<close>, \<^verbatim>\<open>Kd\<close>). Its constructor
  \<^verbatim>\<open>PID(Kp, Ki, Kd, setpoint=..., output_limits=...)\<close> takes the proportional, the integral
  and the derivative gain in this order and stores them under these names; the loop starts
  in automatic mode with the accumulators reset (section 4.3).
\<close>

record PID =
  Kp :: pyobj
  Ki :: pyobj
  Kd :: pyobj
  setpoint :: "real option"
  output_limits :: "real option \<times> real option"
  auto_mode :: bool
  integral :: real
  last_error :: "real option"
  last_output :: "real option"

definition PID_init ::
  "pyobj \<Rightarrow> pyobj \<Rightarrow> pyobj \<Rightarrow> real option \<Rightarrow> real option \<times> real option \<Rightarrow> PID" where
  "PID_init p i d sp limits =
     \<lparr>Kp = p, Ki = i, Kd = d, setpoint = sp, output_limits = limits, auto_mode = True,
      integral = 0, last_error = None, last_output = None\<rparr>"

text \<open>
  The two methods of the library that the controller calls are parameters of the model:
  \<open>pid_call\<close> is \<^verbatim>\<open>float(self._pid(cur_temp))\<close>, the next output with the updated loop
  or the exception it raises, and \<open>pid_set_auto_mode\<close> is
  \<^verbatim>\<open>set_auto_mode(enabled, last_output)\<close>.
\<close>

record simple_pid =
  pid_call :: "PID \<Rightarrow> real option \<Rightarrow> error + (real \<times> PID)"
  pid_set_auto_mode :: "bool \<Rightarrow> pyobj \<Rightarrow> PID \<Rightarrow> PID"

subsection \<open>AbstractPidController\<close>

record pid_controller = controller +
  initial_pid_params :: "PidParams option"
  current_pid_params :: "PidParams slot"
  pid :: "PID slot"

text \<open>The abstract methods \<^verbatim>\<open>_get_output_limits\<close> and \<^verbatim>\<open>_apply_output\<close>, which a concrete
  subclass provides.\<close>

record pid_subclass =
  get_output_limits :: "pid_controller \<Rightarrow> real option \<times> real option"
  apply_output :: "pid_controller \<Rightarrow> real \<Rightarrow> world \<Rightarrow> world"

text \<open>
  \<^verbatim>\<open>AbstractPidController.__init__\<close>. The class itself is abstract, so this initialiser
  only runs as part of the construction of a subclass that defines the two abstract methods.
\<close>

definition AbstractPidController_init ::
  "string \<Rightarrow> string \<Rightarrow> string \<Rightarrow> PidParams option \<Rightarrow> bool \<Rightarrow> error + pid_controller" where
  "AbstractPidController_init nm md target pid_params inv_flag =
     (case AbstractController_init nm md target inv_flag of
        Inl e \<Rightarrow> Inl e
      | Inr b \<Rightarrow> Inr \<lparr>name = name b, mode = mode b, target_entity_id = target_entity_id b,
                  inverted = inverted b, running = running b,
                  initial_pid_params = pid_params,
                  current_pid_params = TypingOptional,
                  pid = TypingOptional\<rparr>)"


definition AbstractPidController_is_working ::
  "pid_controller \<Rightarrow> world \<Rightarrow> (bool, pid_controller \<times> world) outcome" where
  "AbstractPidController_is_working c w = Raised NotImplementedError (c, w)"

text \<open>\<^verbatim>\<open>s.split(sep)\<close> for a separator of one character, and the unpacking of the parts into
  three names.\<close>

fun str_split :: "string \<Rightarrow> char \<Rightarrow> string list" where
  "str_split [] sep = [[]]"
| "str_split (x # xs) sep =
     (if x = sep then [] # str_split xs sep
      else (case str_split xs sep of [] \<Rightarrow> [[x]] | part # parts \<Rightarrow> (x # part) # parts))"

fun unpack3 :: "string list \<Rightarrow> error + (string \<times> string \<times> string)" where
  "unpack3 [a, b, c] = Inr (a, b, c)"
| "unpack3 parts =
     Inl (ValueError (if length parts < 3 then ''not enough values to unpack (expected 3)''
                      else ''too many values to unpack (expected 3)''))"

text \<open>
  \<^verbatim>\<open>AbstractPidController.async_added_to_hass\<close>, after the call of the base method, which
  only subscribes to the state changes of the target entity. \<open>old_state\<close> is the persisted
  state, \<open>None\<close> when there is none.
\<close>

definition restore_pid_params ::
  "pid_controller \<Rightarrow> world \<Rightarrow> State option \<Rightarrow> (unit, pid_controller \<times> world) outcome" where
  "restore_pid_params c w old_state =
     (case old_state of
        None \<Rightarrow> Returned () (c, w)
      | Some st \<Rightarrow>
          (case attributes st ATTR_PID_PARAMS of
             None \<Rightarrow> Returned () (c, w)
           | Some saved_pid_params \<Rightarrow>
               (if saved_pid_params \<noteq> [] then
                  (case unpack3 (str_split saved_pid_params (CHR '',''))  of
                     Inl e \<Rightarrow> Raised e (c, w)
                   | Inr (a, b, d) \<Rightarrow>
                       Returned ()
                         (c\<lparr>current_pid_params := Object (PidParams_init (PyStr a) (PyStr b) (PyStr d))\<rparr>,
                          log_record INFO ''restored last PID params'' w))
                else Returned () (c, w))))"

definition AbstractPidController_async_added_to_hass ::
  "pid_controller \<Rightarrow> world \<Rightarrow> State option \<Rightarrow> (unit, pid_controller \<times> world) outcome" where
  "AbstractPidController_async_added_to_hass c w old_state =
     (case restore_pid_params c w old_state of
        Raised e s \<Rightarrow> Raised e s
      | Returned u (c1, w1) \<Rightarrow>
          (if \<not> truthy (current_pid_params c1) then
             Returned ()
               (c1\<lparr>current_pid_params := slot_of_option (initial_pid_params c1)\<rparr>,
                log_record INFO ''No PID params found in state attributes, using default'' w1)
           else Returned () (c1, w1)))"

text \<open>
  \<^verbatim>\<open>set_pid_params\<close>. The two conditional inversions come first; a gain that is not a
  number makes them raise before anything is stored. Then the parameters are stored, and
  the gains are copied into the feedback loop when there is one; while \<^verbatim>\<open>_pid\<close> still
  holds the typing expression, the assignment of \<^verbatim>\<open>Kp\<close> raises AttributeError.
\<close>

definition invert_for_cooler :: "pid_controller \<Rightarrow> world \<Rightarrow> PidParams \<Rightarrow> error + (PidParams \<times> world)" where
  "invert_for_cooler c w p =
     (if mode c = HVAC_MODE_COOL then
        (case py_lt_zero (kp p) of
           Inl e \<Rightarrow> Inl e
         | Inr negative \<Rightarrow>
             (if \<not> negative then
                (case invert p of
                   Inl e \<Rightarrow> Inl e
                 | Inr p' \<Rightarrow> Inr (p', log_record WARNING ''Cooler mode but kp not negative. Inverting all PID params'' w))
              else Inr (p, w)))
      else Inr (p, w))"

definition invert_for_config :: "pid_controller \<Rightarrow> world \<Rightarrow> PidParams \<Rightarrow> error + (PidParams \<times> world)" where
  "invert_for_config c w p =
     (if inverted c then
        (case invert p of
           Inl e \<Rightarrow> Inl e
         | Inr p' \<Rightarrow> Inr (p', log_record INFO ''Target behavior inverted requested in config. Inverting all PID params'' w))
      else Inr (p, w))"

definition set_pid_params ::
  "pid_controller \<Rightarrow> world \<Rightarrow> PidParams option \<Rightarrow> (unit, pid_controller \<times> world) outcome" where
  "set_pid_params c w pid_params =
     (case pid_params of
        None \<Rightarrow> Raised (ValueError ''PID params can't be None'') (c, w)
      | Some p \<Rightarrow>
          (case invert_for_cooler c w p of
             Inl e \<Rightarrow> Raised e (c, w)
           | Inr (p1, w1) \<Rightarrow>
               (case invert_for_config c w1 p1 of
                  Inl e \<Rightarrow> Raised e (c, w1)
                | Inr (p2, w2) \<Rightarrow>
                    (let c1 = c\<lparr>current_pid_params := Object p2\<rparr>
                     in case pid c1 of
                          TypingOptional \<Rightarrow> Raised AttributeError (c1, w2)
                        | NoneValue \<Rightarrow> Returned () (c1, log_record INFO ''New PID params'' w2)
                        | Object loop \<Rightarrow>
                            Returned ()
                              (c1\<lparr>pid := Object (loop\<lparr>Kp := kp p2, Ki := ki p2, Kd := kd p2\<rparr>)\<rparr>,
                               log_record INFO ''New PID params'' w2)))))"

text \<open>
  \<^verbatim>\<open>AbstractPidController._async_start\<close>. The arguments of the constructor are written as
  the source writes them. While \<^verbatim>\<open>_current_pid_params\<close> still holds the typing
  expression it is truthy, and reading its \<^verbatim>\<open>kp\<close> raises AttributeError. A State object
  is truthy, so \<^verbatim>\<open>set_auto_mode\<close> is called whenever the target entity has a state.
\<close>

definition AbstractPidController__async_start ::
  "simple_pid \<Rightarrow> pid_subclass \<Rightarrow> pid_controller \<Rightarrow> world \<Rightarrow> real option \<Rightarrow> real option
    \<Rightarrow> (bool, pid_controller \<times> world) outcome" where
  "AbstractPidController__async_start lib sub c w cur_temp target_temp =
     (if \<not> truthy (current_pid_params c) then
        Returned False (c, log_record ERROR ''Start called but no PID params was set'' w)
      else case current_pid_params c of
             Object pid_params \<Rightarrow>
               (let loop = PID_init (kp pid_params) (ki pid_params) (kp pid_params)
                             target_temp (get_output_limits sub c);
                    current_output = states w (target_entity_id c);
                    loop' = (case current_output of
                               None \<Rightarrow> loop
                             | Some st \<Rightarrow> pid_set_auto_mode lib True (PyState st) loop)
                in Returned True
                     (c\<lparr>pid := Object loop'\<rparr>, log_record INFO ''Initialized.  PID params, current output'' w))
           | _ \<Rightarrow> Raised AttributeError (c, w))"

definition AbstractPidController__async_stop ::
  "pid_controller \<Rightarrow> world \<Rightarrow> (unit, pid_controller \<times> world) outcome" where
  "AbstractPidController__async_stop c w = Returned () (c\<lparr>pid := NoneValue\<rparr>, w)"

text \<open>
  \<^verbatim>\<open>AbstractPidController._async_control\<close>. \<^verbatim>\<open>current_output\<close> is what
  \<^verbatim>\<open>hass.states.get\<close> returns, a State object or \<^verbatim>\<open>None\<close>, and it is compared with the
  float \<^verbatim>\<open>output\<close> by \<^verbatim>\<open>!=\<close>.
\<close>

definition AbstractPidController__async_control ::
  "simple_pid \<Rightarrow> pid_subclass \<Rightarrow> pid_controller \<Rightarrow> world \<Rightarrow> real option \<Rightarrow> real option
    \<Rightarrow> datetime option \<Rightarrow> bool \<Rightarrow> (unit, pid_controller \<times> world) outcome" where
  "AbstractPidController__async_control lib sub c w cur_temp target_temp time force =
     (case pid c of
        Object loop \<Rightarrow>
          (let (loop1, w1) =
                 (if setpoint loop \<noteq> target_temp then
                    (loop\<lparr>setpoint := target_temp\<rparr>, log_record INFO ''Target setpoint was changed'' w)
                  else (loop, w))
           in case pid_call lib loop1 cur_temp of
                Inl e \<Rightarrow> Raised e (c\<lparr>pid := Object loop1\<rparr>, w1)
              | Inr (output, loop2) \<Rightarrow>
                  (let c2 = c\<lparr>pid := Object loop2\<rparr>;
                       current_output = (case states w1 (target_entity_id c2) of
                                           None \<Rightarrow> PyNone
                                         | Some st \<Rightarrow> PyState st)
                   in if \<not> py_eq current_output (PyFloat output) then
                        Returned () (c2, apply_output sub c2 output (log_record DEBUG ''adjusting'' w1))
                      else Returned () (c2, w1)))
      | _ \<Rightarrow> Raised AttributeError (c, w))"

definition AbstractPidController_async_start ::
  "simple_pid \<Rightarrow> pid_subclass \<Rightarrow> pid_controller \<Rightarrow> world \<Rightarrow> (unit, pid_controller \<times> world) outcome" where
  "AbstractPidController_async_start lib sub c w =
     AbstractController_async_start (AbstractPidController__async_start lib sub) c w"

definition AbstractPidController_async_stop ::
  "pid_controller \<Rightarrow> world \<Rightarrow> (unit, pid_controller \<times> world) outcome" where
  "AbstractPidController_async_stop c w = AbstractController_async_stop AbstractPidController__async_stop c w"

definition AbstractPidController_async_control ::
  "simple_pid \<Rightarrow> pid_subclass \<Rightarrow> pid_controller \<Rightarrow> world \<Rightarrow> datetime option \<Rightarrow> bool
    \<Rightarrow> (unit, pid_controller \<times> world) outcome" where
  "AbstractPidController_async_control lib sub c w time force =
     AbstractController_async_control (AbstractPidController__async_control lib sub) c w time force"

subsection \<open>Calling a class\<close>

text \<open>
  The controller classes derive from \<^verbatim>\<open>abc.ABC\<close>. A class keeps the abstract methods of its
  base that its own body does not define, and adds those it declares with
  \<^verbatim>\<open>@abc.abstractmethod\<close>. The lists below are the methods each class body defines, as in the
  source.
\<close>

definition still_abstract :: "string list \<Rightarrow> string list \<Rightarrow> string list" where
  "still_abstract inherited defined = filter (\<lambda>m. m \<notin> set defined) inherited"

definition AbstractController_abstractmethods :: "string list" where
  "AbstractController_abstractmethods =
     [''is_working'', ''_async_start'', ''_async_stop'', ''_async_control'']"


definition AbstractPidController_abstractmethods :: "string list" where
  "AbstractPidController_abstractmethods =
     still_abstract AbstractController_abstractmethods
       [''__init__'', ''is_working'', ''async_added_to_hass'', ''extra_state_attributes'',
        ''set_pid_params'', ''_async_start'', ''_async_stop'', ''_async_control'']
     @ [''_get_output_limits'', ''_apply_output'']"


text \<open>A subclass of \<^verbatim>\<open>AbstractPidController\<close> that defines the two abstract methods (the
  methods a \<open>pid_subclass\<close> stands for) and inherits the initialiser.\<close>

definition ConcretePidController_abstractmethods :: "string list" where
  "ConcretePidController_abstractmethods =
     still_abstract AbstractPidController_abstractmethods [''_get_output_limits'', ''_apply_output'']"

text \<open>
  Calling a class creates the object and then runs \<^verbatim>\<open>__init__\<close> on it. Creating the object
  raises TypeError when the class still has abstract methods, before \<^verbatim>\<open>__init__\<close> runs.
\<close>

definition new_object :: "string list \<Rightarrow> error + 'a \<Rightarrow> error + 'a" where
  "new_object abstractmethods initialised =
     (if abstractmethods \<noteq> [] then Inl TypeError else initialised)"




definition ConcretePidController_new ::
  "string \<Rightarrow> string \<Rightarrow> string \<Rightarrow> PidParams option \<Rightarrow> bool \<Rightarrow> error + pid_controller" where
  "ConcretePidController_new nm md target pid_params inv_flag =
     new_object ConcretePidController_abstractmethods
       (AbstractPidController_init nm md target pid_params inv_flag)"

subsection \<open>Notions used to state the properties\<close>

text \<open>A parameter object whose three gains are numbers, and the negation of all three.\<close>

definition gains :: "real \<times> real \<times> real \<Rightarrow> PidParams" where
  "gains g = (case g of (a, b, d) \<Rightarrow> PidParams_init (PyFloat a) (PyFloat b) (PyFloat d))"

definition negate_all :: "real \<times> real \<times> real \<Rightarrow> real \<times> real \<times> real" where
  "negate_all g = (case g of (a, b, d) \<Rightarrow> (- a, - b, - d))"

text \<open>The actuation commands that \<^verbatim>\<open>_async_turn_on\<close> and \<^verbatim>\<open>_async_turn_off\<close> issue: the
  service is flipped when the controller is inverted.\<close>

definition turn_on_command :: "switch_controller \<Rightarrow> command" where
  "turn_on_command c =
     ServiceCall HA_DOMAIN (if inverted c then SERVICE_TURN_OFF else SERVICE_TURN_ON)
       [(ATTR_ENTITY_ID, target_entity_id c)]"

definition turn_off_command :: "switch_controller \<Rightarrow> command" where
  "turn_off_command c =
     ServiceCall HA_DOMAIN (if inverted c then SERVICE_TURN_ON else SERVICE_TURN_OFF)
       [(ATTR_ENTITY_ID, target_entity_id c)]"

subsection \<open>Concrete controllers and surroundings\<close>

text \<open>A heating switch with tolerances of one degree, and a host in heating mode whose
  switch reports the given state and has held it for 120 seconds.\<close>

definition example_heater :: switch_controller where
  "example_heater =
     \<lparr>name = ''heater'', mode = HVAC_MODE_HEAT, target_entity_id = ''switch.heater'',
      inverted = False, running = True,
      cold_tolerance = 1, hot_tolerance = 1, min_cycle_duration = None\<rparr>"

definition example_world :: "string \<Rightarrow> real \<Rightarrow> real \<Rightarrow> world" where
  "example_world actuator cur target =
     \<lparr>hvac_mode = HVAC_MODE_HEAT, current_temperature = Some cur, target_temperature = Some target,
      states = [''switch.heater'' \<mapsto> \<lparr>state = actuator, attributes = Map.empty\<rparr>],
      elapsed_since_last_actuator_transition = (\<lambda>entity_id expected. Some 120),
      commands = [], logged = []\<rparr>"

definition example_gated_heater :: switch_controller where
  "example_gated_heater = example_heater\<lparr>min_cycle_duration := Some 300\<rparr>"

text \<open>A PID controller for a valve as the initialiser leaves it, a host with the given
  entities, a library whose loop always computes the output 50, and a subclass that records
  the output it is asked to apply.\<close>

definition example_pid_controller :: pid_controller where
  "example_pid_controller =
     \<lparr>name = ''valve'', mode = HVAC_MODE_HEAT, target_entity_id = ''climate.valve'',
      inverted = False, running = False,
      initial_pid_params = Some (gains (1, 0.5, 0.25)),
      current_pid_params = TypingOptional,
      pid = TypingOptional\<rparr>"

text \<open>The same controller constructed without default gain parameters.\<close>

definition example_unconfigured_pid_controller :: pid_controller where
  "example_unconfigured_pid_controller = example_pid_controller\<lparr>initial_pid_params := None\<rparr>"

definition example_host :: "(string \<rightharpoonup> State) \<Rightarrow> world" where
  "example_host entities =
     \<lparr>hvac_mode = HVAC_MODE_HEAT, current_temperature = Some 19, target_temperature = Some 21,
      states = entities,
      elapsed_since_last_actuator_transition = (\<lambda>entity_id expected. None),
      commands = [], logged = []\<rparr>"

definition example_lib :: simple_pid where
  "example_lib =
     \<lparr>pid_call = (\<lambda>loop input. Inr (50, loop)),
      pid_set_auto_mode = (\<lambda>enabled last loop. loop\<lparr>auto_mode := enabled\<rparr>)\<rparr>"

definition example_subclass :: pid_subclass where
  "example_subclass =
     \<lparr>get_output_limits = (\<lambda>c. (Some 0, Some 100)),
      apply_output = (\<lambda>c output w. w\<lparr>commands := commands w @ [ApplyOutput (target_entity_id c) output]\<rparr>)\<rparr>"

section \<open>Properties of the hysteresis controller\<close>

subsection \<open>The commands of one control tick\<close>

lemma commands_log_record: "commands (log_record l m w) = commands w"
  by (simp add: log_record_def)

lemma is_on_log_record: "SwitchController__is_on c (log_record l m w) = SwitchController__is_on c w"
  by (simp add: SwitchController__is_on_def is_state_def log_record_def)

lemma commands_turn_on:
  "commands (SwitchController__async_turn_on c w) = commands w @ [turn_on_command c]"
  by (simp add: SwitchController__async_turn_on_def async_call_def turn_on_command_def)

lemma commands_turn_off:
  "commands (SwitchController__async_turn_off c w) = commands w @ [turn_off_command c]"
  by (simp add: SwitchController__async_turn_off_def async_call_def turn_off_command_def)

lemma control_decision:
  assumes "running c" "current_temperature w = Some cur" "target_temperature w = Some target"
    and "force \<or> time \<noteq> None \<or> \<not> min_cycle_set (min_cycle_duration c) \<or> long_enough c w"
  shows "\<not> has_raised (SwitchController_async_control c w time force)"
    and "commands (snd (final_state (SwitchController_async_control c w time force))) =
      commands w @
        (if SwitchController__is_on c w then
           (if \<not> need_turn_on c w cur target then [turn_off_command c]
            else if time \<noteq> None then [turn_on_command c] else [])
         else
           (if need_turn_on c w cur target then [turn_on_command c]
            else if time \<noteq> None then [turn_off_command c] else []))"
  using assms
  by (auto simp add: SwitchController_async_control_def AbstractController_async_control_def
      SwitchController__async_control_def Let_def is_on_log_record commands_log_record
      commands_turn_on commands_turn_off)

lemma control_gated:
  assumes "running c" "\<not> force" "min_cycle_set (min_cycle_duration c)" "\<not> long_enough c w"
  shows "SwitchController_async_control c w None force = Returned () (c, w)"
  using assms
  by (simp add: SwitchController_async_control_def AbstractController_async_control_def
      SwitchController__async_control_def)

lemma dead_band_no_need:
  "\<not> too_cold c cur target \<Longrightarrow> \<not> too_hot c cur target \<Longrightarrow> \<not> need_turn_on c w cur target"
  by (simp add: need_turn_on_def)

text \<open>
  C1 (as amended). Inside the dead band (neither too cold nor too hot), on a normal tick of
  a running controller whose minimum-cycle gate does not block, the tick issues no command
  when the actuator is off; when the actuator is on it issues exactly one command, the
  turn-off command, because \<^verbatim>\<open>need_turn_on\<close> is false there.
\<close>

theorem dead_band_commands:
  assumes "running c"
    and "current_temperature w = Some cur" and "target_temperature w = Some target"
    and "\<not> too_cold c cur target" and "\<not> too_hot c cur target"
    and "force \<or> \<not> min_cycle_set (min_cycle_duration c) \<or> long_enough c w"
  shows "\<not> has_raised (SwitchController_async_control c w None force)
    \<and> commands (snd (final_state (SwitchController_async_control c w None force)))
        = commands w @ (if SwitchController__is_on c w then [turn_off_command c] else [])"
proof -
  have gate: "force \<or> (None :: datetime option) \<noteq> None
      \<or> \<not> min_cycle_set (min_cycle_duration c) \<or> long_enough c w"
    using assms(6) by blast
  have idle: "\<not> need_turn_on c w cur target"
    using assms(4,5) by (rule dead_band_no_need)
  show ?thesis
    using control_decision [OF assms(1-3) gate] idle by simp
qed

theorem dead_band_commands_witness:
  "\<not> has_raised (SwitchController_async_control example_heater (example_world ''off'' 20 20) None False)
   \<and> commands (snd (final_state
        (SwitchController_async_control example_heater (example_world ''off'' 20 20) None False)))
      = []
   \<and> commands (snd (final_state
        (SwitchController_async_control example_heater (example_world ''on'' 20 20) None False)))
      = [turn_off_command example_heater]"
  using dead_band_commands [of example_heater "example_world ''off'' 20 20" 20 20 False]
    dead_band_commands [of example_heater "example_world ''on'' 20 20" 20 20 False]
  by (simp add: example_heater_def example_world_def too_cold_def too_hot_def
      SwitchController__is_on_def is_state_def STATE_ON_def)

text \<open>
  The claim C1 as first stated (no command in the dead band whether the actuator is on or
  off) fails: with target and current temperature both 20, tolerances 1, no minimum cycle
  and the heater on, a normal tick issues the turn-off service call.
\<close>

theorem dead_band_counterexample:
  "running example_heater
   \<and> \<not> min_cycle_set (min_cycle_duration example_heater)
   \<and> \<not> too_cold example_heater 20 20 \<and> \<not> too_hot example_heater 20 20
   \<and> commands (example_world ''on'' 20 20) = []
   \<and> commands (snd (final_state
        (SwitchController_async_control example_heater (example_world ''on'' 20 20) None False)))
      = [ServiceCall ''homeassistant'' ''turn_off'' [(''entity_id'', ''switch.heater'')]]"
  by (simp add: example_heater_def example_world_def too_cold_def too_hot_def
      SwitchController_async_control_def AbstractController_async_control_def
      SwitchController__async_control_def need_turn_on_def SwitchController__is_on_def
      is_state_def log_record_def SwitchController__async_turn_off_def async_call_def
      STATE_ON_def HA_DOMAIN_def SERVICE_TURN_OFF_def ATTR_ENTITY_ID_def)

text \<open>
  C5. On a normal tick without \<open>force\<close> and with a minimum cycle duration set, if the time
  the actuator has held its current state is unknown (ConditionError) or shorter than the
  minimum cycle, the tick returns with the controller and the surroundings unchanged, so no
  command is issued. The same tick with \<open>force\<close> passes the gate and runs the decision:
  it turns the actuator off when it is on and not needed, on when it is off and needed.
\<close>

theorem min_cycle_gate:
  assumes "running c"
    and "min_cycle_duration c = Some d" and "min_cycle_set (min_cycle_duration c)"
    and "case elapsed_since_last_actuator_transition w (target_entity_id c)
                (if SwitchController__is_on c w then STATE_ON else HVAC_MODE_OFF) of
           None \<Rightarrow> True
         | Some held \<Rightarrow> held < d"
  shows "SwitchController_async_control c w None False = Returned () (c, w)
    \<and> (\<forall>cur target. current_temperature w = Some cur \<and> target_temperature w = Some target \<longrightarrow>
          \<not> has_raised (SwitchController_async_control c w None True)
          \<and> commands (snd (final_state (SwitchController_async_control c w None True)))
              = commands w @
                  (if SwitchController__is_on c w then
                     (if \<not> need_turn_on c w cur target then [turn_off_command c] else [])
                   else
                     (if need_turn_on c w cur target then [turn_on_command c] else [])))"
proof -
  have short: "\<not> long_enough c w"
    using assms(2,4)
    by (simp add: long_enough_def condition_state_def Let_def split: option.splits if_splits)
  have set: "min_cycle_set (min_cycle_duration c)"
    using assms(3) .
  have blocked: "SwitchController_async_control c w None False = Returned () (c, w)"
    using control_gated [OF assms(1) _ set short, of False] by simp
  have forced: "\<not> has_raised (SwitchController_async_control c w None True)
      \<and> commands (snd (final_state (SwitchController_async_control c w None True)))
          = commands w @
              (if SwitchController__is_on c w then
                 (if \<not> need_turn_on c w cur target then [turn_off_command c] else [])
               else
                 (if need_turn_on c w cur target then [turn_on_command c] else []))"
    if "current_temperature w = Some cur" and "target_temperature w = Some target"
    for cur target
    using control_decision [OF assms(1) that, of True None] by simp
  show ?thesis
    using blocked forced by blast
qed

theorem min_cycle_gate_witness:
  "SwitchController_async_control example_gated_heater (example_world ''on'' 25 20) None False
     = Returned () (example_gated_heater, example_world ''on'' 25 20)
   \<and> commands (snd (final_state
        (SwitchController_async_control example_gated_heater (example_world ''on'' 25 20) None True)))
      = [turn_off_command example_gated_heater]"
  using min_cycle_gate [of example_gated_heater 300 "example_world ''on'' 25 20"]
  by (simp add: example_gated_heater_def example_heater_def example_world_def
      SwitchController__is_on_def is_state_def STATE_ON_def need_turn_on_def too_cold_def
      too_hot_def HVAC_MODE_HEAT_def HVAC_MODE_COOL_def)

text \<open>
  C6. On a keep-alive tick (a time is passed) of a running controller: when the actuator is
  on and is needed on, the turn-on command is issued again; when it is off and is not
  needed on, the turn-off command is issued again.
\<close>

theorem keep_alive_reasserts:
  assumes "running c"
    and "current_temperature w = Some cur" and "target_temperature w = Some target"
  shows "(SwitchController__is_on c w \<and> need_turn_on c w cur target \<longrightarrow>
            \<not> has_raised (SwitchController_async_control c w (Some t) force)
            \<and> commands (snd (final_state (SwitchController_async_control c w (Some t) force)))
                = commands w @ [turn_on_command c])
    \<and> (\<not> SwitchController__is_on c w \<and> \<not> need_turn_on c w cur target \<longrightarrow>
            \<not> has_raised (SwitchController_async_control c w (Some t) force)
            \<and> commands (snd (final_state (SwitchController_async_control c w (Some t) force)))
                = commands w @ [turn_off_command c])"
proof -
  have gate: "force \<or> Some t \<noteq> None \<or> \<not> min_cycle_set (min_cycle_duration c) \<or> long_enough c w"
    by simp
  show ?thesis
    using control_decision [OF assms gate] by simp
qed

theorem keep_alive_reasserts_witness:
  "commands (snd (final_state
      (SwitchController_async_control example_gated_heater (example_world ''on'' 18 20) (Some 1000) False)))
     = [turn_on_command example_gated_heater]
   \<and> commands (snd (final_state
      (SwitchController_async_control example_gated_heater (example_world ''off'' 20 20) (Some 1000) False)))
     = [turn_off_command example_gated_heater]"
  using keep_alive_reasserts [of example_gated_heater "example_world ''on'' 18 20" 18 20 1000 False]
    keep_alive_reasserts [of example_gated_heater "example_world ''off'' 20 20" 20 20 1000 False]
  by (simp add: example_gated_heater_def example_heater_def example_world_def
      SwitchController__is_on_def is_state_def STATE_ON_def need_turn_on_def too_cold_def
      too_hot_def HVAC_MODE_HEAT_def HVAC_MODE_COOL_def HVAC_MODE_HEAT_COOL_def)

section \<open>Properties of construction\<close>








section \<open>Properties of the gain parameters and the PID controller\<close>

text \<open>
  C9. Inverting numeric gain parameters twice gives the parameters back.
\<close>

theorem invert_involutive:
  "(case invert (PidParams_init (PyFloat a) (PyFloat b) (PyFloat d)) of
      Inl e \<Rightarrow> Inl e
    | Inr p \<Rightarrow> invert p) = Inr (PidParams_init (PyFloat a) (PyFloat b) (PyFloat d))"
  by (simp add: invert_def PidParams_init_def)

subsection \<open>The sign convention of \<^verbatim>\<open>set_pid_params\<close>\<close>

lemma invert_gains: "invert (gains g) = Inr (gains (negate_all g))"
  by (cases g) (simp add: invert_def gains_def negate_all_def PidParams_init_def)

lemma kp_gains: "kp (gains g) = PyFloat (fst g)"
  by (cases g) (simp add: gains_def PidParams_init_def)

lemma invert_for_cooler_gains:
  "mode c = HVAC_MODE_COOL \<Longrightarrow>
   \<exists>w'. invert_for_cooler c w (gains g) = Inr (gains (if \<not> fst g < 0 then negate_all g else g), w')"
  by (simp add: invert_for_cooler_def invert_gains kp_gains)

lemma invert_for_config_gains:
  "\<exists>w'. invert_for_config c w (gains g) = Inr (gains (if inverted c then negate_all g else g), w')"
  by (simp add: invert_for_config_def invert_gains)

lemma set_pid_params_stores:
  assumes "invert_for_cooler c w p = Inr (p1, w1)" and "invert_for_config c w1 p1 = Inr (p2, w2)"
  shows "current_pid_params (fst (final_state (set_pid_params c w (Some p)))) = Object p2
    \<and> has_raised (set_pid_params c w (Some p)) = (pid c = TypingOptional)"
  using assms by (simp add: set_pid_params_def Let_def split: slot.splits)

text \<open>
  C4. For numeric gains and a controller in cooling mode, \<^verbatim>\<open>set_pid_params\<close> negates all
  three gains exactly when the given \<open>kp\<close> is not negative, then negates all three once
  more when the controller is inverted, and stores the result; so the stored \<open>kp\<close> is at
  most zero without inversion and at least zero with it. The call raises only while the
  feedback loop attribute still holds its typing expression, after the parameters are stored.
\<close>

theorem set_pid_params_cool:
  assumes "mode c = HVAC_MODE_COOL"
  shows "(let g0 = (a, b, d);
              g1 = (if \<not> a < 0 then negate_all g0 else g0);
              g2 = (if inverted c then negate_all g1 else g1)
          in current_pid_params (fst (final_state (set_pid_params c w (Some (gains g0)))))
               = Object (gains g2)
             \<and> has_raised (set_pid_params c w (Some (gains g0))) = (pid c = TypingOptional)
             \<and> (if inverted c then 0 \<le> fst g2 else fst g2 \<le> 0))"
proof -
  obtain w1 where s1:
    "invert_for_cooler c w (gains (a, b, d))
       = Inr (gains (if \<not> a < 0 then negate_all (a, b, d) else (a, b, d)), w1)"
    using invert_for_cooler_gains [OF assms, of w "(a, b, d)"] by auto
  obtain w2 where s2:
    "invert_for_config c w1 (gains (if \<not> a < 0 then negate_all (a, b, d) else (a, b, d)))
       = Inr (gains (if inverted c
                     then negate_all (if \<not> a < 0 then negate_all (a, b, d) else (a, b, d))
                     else (if \<not> a < 0 then negate_all (a, b, d) else (a, b, d))), w2)"
    using invert_for_config_gains by blast
  have sign: "(if inverted c
       then 0 \<le> fst (negate_all (if \<not> a < 0 then negate_all (a, b, d) else (a, b, d)))
       else fst (if \<not> a < 0 then negate_all (a, b, d) else (a, b, d)) \<le> 0)"
    by (simp add: negate_all_def)
  show ?thesis
    using set_pid_params_stores [OF s1 s2] sign by (simp add: Let_def)
qed

theorem set_pid_params_cool_witness:
  "current_pid_params (fst (final_state
      (set_pid_params (example_pid_controller\<lparr>mode := HVAC_MODE_COOL\<rparr>) (example_host Map.empty)
         (Some (gains (2, 1, 0))))))
     = Object (gains (- 2, - 1, 0))
   \<and> current_pid_params (fst (final_state
      (set_pid_params (example_pid_controller\<lparr>mode := HVAC_MODE_COOL, inverted := True\<rparr>)
         (example_host Map.empty) (Some (gains (- 2, - 1, 0))))))
     = Object (gains (2, 1, 0))"
  using set_pid_params_cool [of "example_pid_controller\<lparr>mode := HVAC_MODE_COOL\<rparr>" 2 1 0
      "example_host Map.empty"]
    set_pid_params_cool [of "example_pid_controller\<lparr>mode := HVAC_MODE_COOL, inverted := True\<rparr>"
      "- 2" "- 1" 0 "example_host Map.empty"]
  by (simp add: example_pid_controller_def negate_all_def Let_def)

subsection \<open>Starting and running the feedback loop\<close>

text \<open>
  While \<^verbatim>\<open>_current_pid_params\<close> still holds the typing expression assigned by the
  constructor, the start does not take the error path: it raises AttributeError, and the
  controller and the surroundings stay as they were.
\<close>

lemma start_with_typing_expression:
  "current_pid_params c = TypingOptional \<Longrightarrow>
   AbstractPidController_async_start lib sub c w = Raised AttributeError (c, w)"
  by (simp add: AbstractPidController_async_start_def AbstractController_async_start_def
      AbstractPidController__async_start_def)

text \<open>Every control call that is not running returns at once.\<close>

lemma control_when_stopped:
  "\<not> running c \<Longrightarrow> AbstractController_async_control control_impl c w time force = Returned () (c, w)"
  by (simp add: AbstractController_async_control_def)

text \<open>
  On every tick of a running PID controller on which the loop computes an output, the
  output is applied, whatever the target entity reports.
\<close>

lemma control_always_applies:
  assumes "running c" and "pid c = Object loop" and "setpoint loop = target_temperature w"
    and "pid_call lib loop (current_temperature w) = Inr (output, loop2)"
  shows "AbstractPidController_async_control lib sub c w time force
    = Returned () (c\<lparr>pid := Object loop2\<rparr>,
        apply_output sub (c\<lparr>pid := Object loop2\<rparr>) output (log_record DEBUG ''adjusting'' w))"
  using assms
  by (simp add: AbstractPidController_async_control_def AbstractController_async_control_def
      AbstractPidController__async_control_def Let_def split: option.splits)

text \<open>
  The error path of the start (lines 280 to 282) is taken when \<^verbatim>\<open>_current_pid_params\<close> is
  \<^verbatim>\<open>None\<close>: two error records, no exception, the controller unchanged. No method of the
  class assigns \<^verbatim>\<open>None\<close> to the attribute.
\<close>

lemma start_error_path:
  assumes "current_pid_params c = NoneValue"
  shows "AbstractPidController_async_start lib sub c w
      = Returned () (c, log_record ERROR ''Error starting controller''
                          (log_record ERROR ''Start called but no PID params was set'' w))"
  using assms
  by (simp add: AbstractPidController_async_start_def AbstractController_async_start_def
      AbstractPidController__async_start_def)

text \<open>
  C8. A PID controller constructed without default gain parameters and added to the host
  without persisted parameters has resolved no gain parameters, but its attribute still
  holds the truthy typing expression: the start does not take the error path. It raises
  AttributeError and writes no log record. The controller stays stopped, and a later
  control call returns at once with nothing changed.
\<close>

theorem start_unresolved_raises:
  "ConcretePidController_new ''valve'' HVAC_MODE_HEAT ''climate.valve'' None False
     = Inr example_unconfigured_pid_controller
   \<and> AbstractPidController_async_added_to_hass example_unconfigured_pid_controller
        (example_host Map.empty) None
     = Returned () (example_unconfigured_pid_controller, example_host Map.empty)
   \<and> AbstractPidController_async_start lib sub example_unconfigured_pid_controller
        (example_host Map.empty)
     = Raised AttributeError (example_unconfigured_pid_controller, example_host Map.empty)
   \<and> logged (example_host Map.empty) = []
   \<and> \<not> running example_unconfigured_pid_controller
   \<and> AbstractPidController_async_control lib sub example_unconfigured_pid_controller
        (example_host Map.empty) None False
     = Returned () (example_unconfigured_pid_controller, example_host Map.empty)"
  by (simp add: ConcretePidController_new_def new_object_def
      ConcretePidController_abstractmethods_def AbstractPidController_abstractmethods_def
      AbstractController_abstractmethods_def still_abstract_def
      AbstractPidController_init_def AbstractController_init_def
      example_unconfigured_pid_controller_def example_pid_controller_def example_host_def
      AbstractPidController_async_added_to_hass_def restore_pid_params_def
      AbstractPidController_async_start_def AbstractController_async_start_def
      AbstractPidController__async_start_def AbstractPidController_async_control_def
      AbstractController_async_control_def)

text \<open>
  C2. A successful start builds the feedback loop with the setpoint and the output limits
  as claimed, but the third argument of the constructor is \<^verbatim>\<open>pid_params.kp\<close>: for the
  parameters (2.5, 0.1, 0.0) the loop starts with the derivative gain 2.5, not 0.0.
\<close>

theorem start_seeds_derivative_gain_with_kp:
  "pid (fst (final_state
      (AbstractPidController__async_start lib sub
         (example_pid_controller\<lparr>current_pid_params := Object (gains (2.5, 0.1, 0))\<rparr>)
         (example_host Map.empty) (Some 19) (Some 21))))
     = Object (PID_init (PyFloat 2.5) (PyFloat 0.1) (PyFloat 2.5) (Some 21)
         (get_output_limits sub
            (example_pid_controller\<lparr>current_pid_params := Object (gains (2.5, 0.1, 0))\<rparr>)))
   \<and> PyFloat 2.5 \<noteq> kd (gains (2.5, 0.1, 0))"
  by (simp add: AbstractPidController__async_start_def example_host_def gains_def
      PidParams_init_def Let_def)

text \<open>
  C3. Restoring the persisted string "2.5,0.1,0.0" stores the three substrings, not the
  numbers 2.5, 0.1 and 0.0; and without persisted parameters the attribute keeps the typing
  expression assigned by the constructor, which is truthy, so the configured defaults are
  never taken.
\<close>

theorem restore_keeps_strings_and_placeholder:
  "AbstractPidController_init ''valve'' HVAC_MODE_HEAT ''climate.valve''
      (Some (gains (1, 0.5, 0.25))) False = Inr example_pid_controller
   \<and> current_pid_params (fst (final_state
        (AbstractPidController_async_added_to_hass example_pid_controller (example_host Map.empty)
           (Some \<lparr>state = ''heat'', attributes = [ATTR_PID_PARAMS \<mapsto> ''2.5,0.1,0.0'']\<rparr>))))
      = Object (PidParams_init (PyStr ''2.5'') (PyStr ''0.1'') (PyStr ''0.0''))
   \<and> PidParams_init (PyStr ''2.5'') (PyStr ''0.1'') (PyStr ''0.0'') \<noteq> gains (2.5, 0.1, 0)
   \<and> current_pid_params (fst (final_state
        (AbstractPidController_async_added_to_hass example_pid_controller (example_host Map.empty)
           None)))
      = TypingOptional
   \<and> initial_pid_params example_pid_controller = Some (gains (1, 0.5, 0.25))"
  by (simp add: AbstractPidController_init_def AbstractController_init_def example_pid_controller_def
      AbstractPidController_async_added_to_hass_def restore_pid_params_def gains_def
      PidParams_init_def)

text \<open>
  C7. The computed output is compared with the State object of the target entity, which is
  never equal to a float: with the entity reporting "50.0" and a computed output of 50 the
  output is applied again.
\<close>

theorem control_applies_equal_output:
  "commands (snd (final_state
      (AbstractPidController_async_control example_lib example_subclass
         (example_pid_controller\<lparr>running := True,
            pid := Object (PID_init (PyFloat 1) (PyFloat 0.5) (PyFloat 0.25) (Some 21) (Some 0, Some 100))\<rparr>)
         (example_host [''climate.valve'' \<mapsto> \<lparr>state = ''50.0'', attributes = Map.empty\<rparr>])
         None False)))
     = [ApplyOutput ''climate.valve'' 50]"
  by (simp add: AbstractPidController_async_control_def AbstractController_async_control_def
      AbstractPidController__async_control_def example_pid_controller_def example_lib_def
      example_subclass_def example_host_def PID_init_def Let_def log_record_def)

end
